theory Spec2Isabelle
  imports Main
begin

section \<open>Values exchanged with the server\<close>

text \<open>
  The client of \<^verbatim>\<open>aiosurrealdb/ws.py\<close> passes Python values of type \<^verbatim>\<open>Any\<close> to the
  websocket and gets decoded JSON back. Both are modelled by one datatype: \<open>JNull\<close> is
  Python's \<^verbatim>\<open>None\<close>, a tuple or list is \<open>JList\<close>, a dict with string keys is \<open>JObj\<close>,
  an association list read with \<open>map_of\<close> (a Python dict holds each key once). Numbers are
  restricted to integers.
\<close>

datatype json =
    JNull
  | JBool bool
  | JInt int
  | JStr string
  | JList "json list"
  | JObj "(string \<times> json) list"

text \<open>Python's truth value of an object, as used by \<^verbatim>\<open>if response.get("error"):\<close>.\<close>

fun truthy :: "json \<Rightarrow> bool" where
  "truthy JNull = False"
| "truthy (JBool b) = b"
| "truthy (JInt n) = (n \<noteq> 0)"
| "truthy (JStr s) = (s \<noteq> [])"
| "truthy (JList xs) = (xs \<noteq> [])"
| "truthy (JObj kw) = (kw \<noteq> [])"

text \<open>\<^verbatim>\<open>d.get(k)\<close>: the value bound to the key, \<^verbatim>\<open>None\<close> when the key is absent.\<close>

definition dict_get :: "(string \<times> json) list \<Rightarrow> string \<Rightarrow> json" where
  "dict_get kw k = (case map_of kw k of None \<Rightarrow> JNull | Some v \<Rightarrow> v)"

section \<open>Exceptions\<close>

text \<open>
  Modelled from the spec: the three exception classes imported from
  \<^verbatim>\<open>aiosurrealdb/exceptions.py\<close>, a module that is not among the sources at hand. The spec
  names a generic protocol error with an authentication and a permission specialisation;
  the class names are those of the import statement of \<^verbatim>\<open>ws.py\<close>.
\<close>

datatype exc_class =
    SurrealException
  | SurrealAuthenticationException
  | SurrealPermissionException

text \<open>
  An exception in flight. \<open>Raised c m\<close> is the instance built by \<^verbatim>\<open>exception(message)\<close>:
  its class and the one argument the constructor call passes. \<open>External n\<close> is an
  exception coming out of an awaited aiohttp call, known by its name only. The others are
  the Python run-time errors the code of \<^verbatim>\<open>ws.py\<close> can hit.
\<close>

datatype exn =
    Raised exc_class string
  | AssertionError
  | AttributeError
  | TypeError
  | ValidationError
  | External string

section \<open>Envelope model\<close>

datatype ConnectionState = CONNECTING | CONNECTED | DISCONNECTED

record request =
  id' :: string
  method' :: string
  params :: "json list"

text \<open>The validator of \<^verbatim>\<open>Request.params\<close> (\<^verbatim>\<open>pre=True, always=True\<close>).\<close>

fun validate_params :: "json list option \<Rightarrow> json list" where
  "validate_params None = []"
| "validate_params (Some v) = v"

text \<open>\<^verbatim>\<open>Request(id=..., method=..., params=...)\<close>; an omitted \<^verbatim>\<open>params\<close> is \<open>None\<close>.\<close>

definition Request :: "string \<Rightarrow> string \<Rightarrow> json list option \<Rightarrow> request" where
  "Request i m p = \<lparr>id' = i, method' = m, params = validate_params p\<rparr>"

text \<open>\<^verbatim>\<open>request.dict()\<close> as \<^verbatim>\<open>send_json\<close> serialises it: the tuple becomes a JSON list.\<close>

definition dict :: "request \<Rightarrow> json" where
  "dict r = JObj [(''id'', JStr (id' r)), (''method'', JStr (method' r)),
                  (''params'', JList (params r))]"

datatype response =
    ResponseSuccess (success_id: string) (result: json)
  | ResponseError (code: int) (message: string)

text \<open>
  \<^verbatim>\<open>_validate_response(response, exception)\<close>; callers that omit the second argument
  get the default \<open>SurrealException\<close>.
\<close>

fun validate_response :: "response \<Rightarrow> exc_class \<Rightarrow> exn + response" where
  "validate_response (ResponseError c m) exception = Inl (Raised exception m)"
| "validate_response (ResponseSuccess i r) exception = Inr (ResponseSuccess i r)"

section \<open>The environment of one call\<close>

text \<open>
  What the world outside \<^verbatim>\<open>ws.py\<close> does while one method of \<^verbatim>\<open>Surreal\<close> runs: the
  identifier \<^verbatim>\<open>uuid.uuid4()\<close> yields, the objects aiohttp hands out (named by numbers),
  and for each awaited aiohttp call whether it returns or raises. The last three fields
  are pydantic's treatment of input that does not have the annotated type: a value of
  another type given for a \<^verbatim>\<open>str\<close> field or for an \<^verbatim>\<open>int\<close> field (coerced, or rejected
  with \<open>None\<close>), and an absent field annotated \<^verbatim>\<open>Any\<close> (filled with a default, or
  rejected). They are left open because they depend on the installed pydantic release.
  Every awaited call returns or raises; a call that never completes is outside the model.
\<close>

type_synonym handle = nat

record env =
  uuid4 :: string
  ClientSession :: handle
  ws_connect :: "exn + handle"
  send_json :: "exn option"
  receive_json :: "exn + json"
  ws_close :: "exn + bool"
  session_close :: "exn option"
  pydantic_str :: "json \<Rightarrow> string option"
  pydantic_int :: "json \<Rightarrow> int option"
  pydantic_any_absent :: "json option"

text \<open>The calls made on the transport, in the order in which they were made.\<close>

datatype tcall =
    NewClientSession
  | WsConnect handle string
  | SendJson handle json
  | ReceiveJson handle
  | WsClose handle
  | SessionClose handle

subsection \<open>Constructing the pydantic response models from keyword arguments\<close>

definition str_field :: "env \<Rightarrow> json option \<Rightarrow> string option" where
  "str_field e a =
     (case a of
        None \<Rightarrow> None
      | Some v \<Rightarrow> (case v of JStr s \<Rightarrow> Some s | _ \<Rightarrow> pydantic_str e v))"

definition int_field :: "env \<Rightarrow> json option \<Rightarrow> int option" where
  "int_field e a =
     (case a of
        None \<Rightarrow> None
      | Some v \<Rightarrow> (case v of JInt n \<Rightarrow> Some n | _ \<Rightarrow> pydantic_int e v))"

definition any_field :: "env \<Rightarrow> json option \<Rightarrow> json option" where
  "any_field e a = (case a of None \<Rightarrow> pydantic_any_absent e | Some v \<Rightarrow> Some v)"

text \<open>\<^verbatim>\<open>ResponseError(**kw)\<close>: \<^verbatim>\<open>code: int\<close>, \<^verbatim>\<open>message: str\<close>; other keys are ignored.\<close>

definition new_ResponseError :: "env \<Rightarrow> (string \<times> json) list \<Rightarrow> exn + response" where
  "new_ResponseError e kw =
     (case int_field e (map_of kw ''code'') of
        None \<Rightarrow> Inl ValidationError
      | Some c \<Rightarrow>
          (case str_field e (map_of kw ''message'') of
             None \<Rightarrow> Inl ValidationError
           | Some m \<Rightarrow> Inr (ResponseError c m)))"

text \<open>\<^verbatim>\<open>ResponseSuccess(**kw)\<close>: \<^verbatim>\<open>id: str\<close>, \<^verbatim>\<open>result: Any\<close>; other keys are ignored.\<close>

definition new_ResponseSuccess :: "env \<Rightarrow> (string \<times> json) list \<Rightarrow> exn + response" where
  "new_ResponseSuccess e kw =
     (case str_field e (map_of kw ''id'') of
        None \<Rightarrow> Inl ValidationError
      | Some i \<Rightarrow>
          (case any_field e (map_of kw ''result'') of
             None \<Rightarrow> Inl ValidationError
           | Some r \<Rightarrow> Inr (ResponseSuccess i r)))"

section \<open>The client session\<close>

record surreal =
  url :: string
  client_state :: ConnectionState
  token :: json
  session :: "handle option"
  ws :: "handle option"

type_synonym outcome = "(exn + json) \<times> surreal \<times> tcall list"

abbreviation returned :: "outcome \<Rightarrow> exn + json" where
  "returned r \<equiv> fst r"

abbreviation state_after :: "outcome \<Rightarrow> surreal" where
  "state_after r \<equiv> fst (snd r)"

abbreviation transport_calls :: "outcome \<Rightarrow> tcall list" where
  "transport_calls r \<equiv> snd (snd r)"

text \<open>\<^verbatim>\<open>Surreal.__init__\<close>\<close>

definition init :: "string \<Rightarrow> surreal" where
  "init u = \<lparr>url = u, client_state = CONNECTING, token = JNull, session = None, ws = None\<rparr>"

text \<open>
  \<^verbatim>\<open>Surreal.connect\<close>. The client session is created and stored first, so it stays
  stored when opening the websocket raises. The state is not read.
\<close>

definition connect :: "env \<Rightarrow> surreal \<Rightarrow> outcome" where
  "connect e s =
     (let s1 = s\<lparr>session := Some (ClientSession e)\<rparr>;
          tr = [NewClientSession, WsConnect (ClientSession e) (url s)]
      in case ws_connect e of
           Inl x \<Rightarrow> (Inl x, s1, tr)
         | Inr w \<Rightarrow> (Inr JNull, s1\<lparr>ws := Some w, client_state := CONNECTED\<rparr>, tr))"

text \<open>
  \<^verbatim>\<open>Surreal.close\<close>. \<^verbatim>\<open>if self.ws:\<close> and \<^verbatim>\<open>if self.session:\<close> test the truth value
  of an aiohttp object or \<^verbatim>\<open>None\<close>; the objects are truthy, so the tests are tests
  against \<^verbatim>\<open>None\<close>. Neither await is inside a \<^verbatim>\<open>try\<close>: an exception ends the method at
  that statement.
\<close>

definition close :: "env \<Rightarrow> surreal \<Rightarrow> outcome" where
  "close e s =
     (case ws s of
        Some w \<Rightarrow>
          (case ws_close e of
             Inl x \<Rightarrow> (Inl x, s, [WsClose w])
           | Inr b \<Rightarrow>
               (case session s of
                  Some c \<Rightarrow>
                    (case session_close e of
                       Some x \<Rightarrow> (Inl x, s, [WsClose w, SessionClose c])
                     | None \<Rightarrow>
                         (Inr JNull, s\<lparr>client_state := DISCONNECTED\<rparr>,
                          [WsClose w, SessionClose c]))
                | None \<Rightarrow> (Inr JNull, s\<lparr>client_state := DISCONNECTED\<rparr>, [WsClose w])))
      | None \<Rightarrow>
          (case session s of
             Some c \<Rightarrow>
               (case session_close e of
                  Some x \<Rightarrow> (Inl x, s, [SessionClose c])
                | None \<Rightarrow> (Inr JNull, s\<lparr>client_state := DISCONNECTED\<rparr>, [SessionClose c]))
           | None \<Rightarrow> (Inr JNull, s\<lparr>client_state := DISCONNECTED\<rparr>, [])))"

subsection \<open>Send and receive\<close>

text \<open>\<^verbatim>\<open>Surreal._validate_connection\<close>\<close>

definition validate_connection :: "surreal \<Rightarrow> exn + unit" where
  "validate_connection s =
     (if client_state s \<noteq> CONNECTED
      then Inl (Raised SurrealException ''Not connected to Surreal server.'')
      else Inr ())"

text \<open>\<^verbatim>\<open>Surreal._send\<close>\<close>

definition send :: "env \<Rightarrow> surreal \<Rightarrow> request \<Rightarrow> (exn + unit) \<times> tcall list" where
  "send e s request =
     (case validate_connection s of
        Inl x \<Rightarrow> (Inl x, [])
      | Inr u \<Rightarrow>
          (case ws s of
             None \<Rightarrow> (Inl AssertionError, [])
           | Some w \<Rightarrow>
               (case send_json e of
                  Some x \<Rightarrow> (Inl x, [SendJson w (dict request)])
                | None \<Rightarrow> (Inr (), [SendJson w (dict request)]))))"

text \<open>
  The last three lines of \<^verbatim>\<open>Surreal._recv\<close>: the decoding of the received frame.
  \<^verbatim>\<open>response.get\<close> exists on a dict only, and \<^verbatim>\<open>**response["error"]\<close> needs a mapping.
\<close>

definition decode :: "env \<Rightarrow> json \<Rightarrow> exn + response" where
  "decode e response =
     (case response of
        JObj kw \<Rightarrow>
          (if truthy (dict_get kw ''error'')
           then (case dict_get kw ''error'' of
                   JObj ekw \<Rightarrow> new_ResponseError e ekw
                 | _ \<Rightarrow> Inl TypeError)
           else new_ResponseSuccess e kw)
      | _ \<Rightarrow> Inl AttributeError)"

text \<open>\<^verbatim>\<open>Surreal._recv\<close>\<close>

definition recv :: "env \<Rightarrow> surreal \<Rightarrow> (exn + response) \<times> tcall list" where
  "recv e s =
     (case validate_connection s of
        Inl x \<Rightarrow> (Inl x, [])
      | Inr u \<Rightarrow>
          (case ws s of
             None \<Rightarrow> (Inl AssertionError, [])
           | Some w \<Rightarrow>
               (case receive_json e of
                  Inl x \<Rightarrow> (Inl x, [ReceiveJson w])
                | Inr response \<Rightarrow> (decode e response, [ReceiveJson w]))))"

text \<open>\<^verbatim>\<open>Surreal._send_receive\<close>\<close>

definition send_receive :: "env \<Rightarrow> surreal \<Rightarrow> request \<Rightarrow> (exn + response) \<times> tcall list" where
  "send_receive e s request =
     (case send e s request of
        (Inl x, tr) \<Rightarrow> (Inl x, tr)
      | (Inr u, tr) \<Rightarrow> (case recv e s of (r, tr') \<Rightarrow> (r, tr @ tr')))"

subsection \<open>The public methods\<close>

text \<open>
  Each method builds its request with a fresh identifier, sends it, receives one frame and
  validates it. Arguments annotated \<^verbatim>\<open>str\<close> are strings; arguments annotated
  \<^verbatim>\<open>Any\<close> or \<^verbatim>\<open>dict[str, Any] | None\<close> are values, \<open>JNull\<close> being \<^verbatim>\<open>None\<close>. A method
  without a \<^verbatim>\<open>return\<close> statement returns \<open>JNull\<close>.
\<close>

text \<open>\<^verbatim>\<open>Surreal.use\<close>\<close>

definition use :: "env \<Rightarrow> surreal \<Rightarrow> string \<Rightarrow> string \<Rightarrow> outcome" where
  "use e s namespace database =
     (case send_receive e s (Request (uuid4 e) ''use'' (Some [JStr namespace, JStr database])) of
        (Inl x, tr) \<Rightarrow> (Inl x, s, tr)
      | (Inr response, tr) \<Rightarrow>
          (case validate_response response SurrealException of
             Inl x \<Rightarrow> (Inl x, s, tr)
           | Inr success \<Rightarrow> (Inr JNull, s, tr)))"

text \<open>\<^verbatim>\<open>Surreal.signup\<close>\<close>

definition signup :: "env \<Rightarrow> surreal \<Rightarrow> json \<Rightarrow> outcome" where
  "signup e s vars =
     (case send_receive e s (Request (uuid4 e) ''signup'' (Some [vars])) of
        (Inl x, tr) \<Rightarrow> (Inl x, s, tr)
      | (Inr response, tr) \<Rightarrow>
          (case validate_response response SurrealAuthenticationException of
             Inl x \<Rightarrow> (Inl x, s, tr)
           | Inr success \<Rightarrow> (Inr (result success), s\<lparr>token := result success\<rparr>, tr)))"

text \<open>\<^verbatim>\<open>Surreal.signin\<close>\<close>

definition signin :: "env \<Rightarrow> surreal \<Rightarrow> json \<Rightarrow> outcome" where
  "signin e s vars =
     (case send_receive e s (Request (uuid4 e) ''signin'' (Some [vars])) of
        (Inl x, tr) \<Rightarrow> (Inl x, s, tr)
      | (Inr response, tr) \<Rightarrow>
          (case validate_response response SurrealAuthenticationException of
             Inl x \<Rightarrow> (Inl x, s, tr)
           | Inr success \<Rightarrow> (Inr (result success), s\<lparr>token := result success\<rparr>, tr)))"

text \<open>\<^verbatim>\<open>Surreal.invalidate\<close>\<close>

definition invalidate :: "env \<Rightarrow> surreal \<Rightarrow> outcome" where
  "invalidate e s =
     (case send_receive e s (Request (uuid4 e) ''invalidate'' None) of
        (Inl x, tr) \<Rightarrow> (Inl x, s, tr)
      | (Inr response, tr) \<Rightarrow>
          (case validate_response response SurrealAuthenticationException of
             Inl x \<Rightarrow> (Inl x, s, tr)
           | Inr success \<Rightarrow> (Inr JNull, s\<lparr>token := JNull\<rparr>, tr)))"

text \<open>\<^verbatim>\<open>Surreal.authenticate\<close>\<close>

definition authenticate :: "env \<Rightarrow> surreal \<Rightarrow> string \<Rightarrow> outcome" where
  "authenticate e s tok =
     (case send_receive e s (Request (uuid4 e) ''authenticate'' (Some [JStr tok])) of
        (Inl x, tr) \<Rightarrow> (Inl x, s, tr)
      | (Inr response, tr) \<Rightarrow>
          (case validate_response response SurrealAuthenticationException of
             Inl x \<Rightarrow> (Inl x, s, tr)
           | Inr success \<Rightarrow> (Inr JNull, s, tr)))"

text \<open>\<^verbatim>\<open>Surreal.let\<close>\<close>

definition let' :: "env \<Rightarrow> surreal \<Rightarrow> string \<Rightarrow> json \<Rightarrow> outcome" where
  "let' e s key val =
     (case send_receive e s (Request (uuid4 e) ''let'' (Some [JStr key, val])) of
        (Inl x, tr) \<Rightarrow> (Inl x, s, tr)
      | (Inr response, tr) \<Rightarrow>
          (case validate_response response SurrealPermissionException of
             Inl x \<Rightarrow> (Inl x, s, tr)
           | Inr success \<Rightarrow> (Inr (result success), s, tr)))"

text \<open>\<^verbatim>\<open>Surreal.set\<close>\<close>

definition set' :: "env \<Rightarrow> surreal \<Rightarrow> string \<Rightarrow> json \<Rightarrow> outcome" where
  "set' e s key val =
     (case send_receive e s (Request (uuid4 e) ''let'' (Some [JStr key, val])) of
        (Inl x, tr) \<Rightarrow> (Inl x, s, tr)
      | (Inr response, tr) \<Rightarrow>
          (case validate_response response SurrealPermissionException of
             Inl x \<Rightarrow> (Inl x, s, tr)
           | Inr success \<Rightarrow> (Inr (result success), s, tr)))"

text \<open>\<^verbatim>\<open>Surreal.query\<close>\<close>

definition query :: "env \<Rightarrow> surreal \<Rightarrow> string \<Rightarrow> json \<Rightarrow> outcome" where
  "query e s sql vars =
     (case send_receive e s (Request (uuid4 e) ''query'' (Some (if vars = JNull then [JStr sql] else [JStr sql, vars]))) of
        (Inl x, tr) \<Rightarrow> (Inl x, s, tr)
      | (Inr response, tr) \<Rightarrow>
          (case validate_response response SurrealException of
             Inl x \<Rightarrow> (Inl x, s, tr)
           | Inr success \<Rightarrow> (Inr (result success), s, tr)))"

text \<open>\<^verbatim>\<open>Surreal.select\<close>\<close>

definition select :: "env \<Rightarrow> surreal \<Rightarrow> string \<Rightarrow> outcome" where
  "select e s thing =
     (case send_receive e s (Request (uuid4 e) ''select'' (Some [JStr thing])) of
        (Inl x, tr) \<Rightarrow> (Inl x, s, tr)
      | (Inr response, tr) \<Rightarrow>
          (case validate_response response SurrealException of
             Inl x \<Rightarrow> (Inl x, s, tr)
           | Inr success \<Rightarrow> (Inr (result success), s, tr)))"

text \<open>\<^verbatim>\<open>Surreal.create\<close>\<close>

definition create :: "env \<Rightarrow> surreal \<Rightarrow> string \<Rightarrow> json \<Rightarrow> outcome" where
  "create e s thing data =
     (case send_receive e s (Request (uuid4 e) ''create'' (Some (if data = JNull then [JStr thing] else [JStr thing, data]))) of
        (Inl x, tr) \<Rightarrow> (Inl x, s, tr)
      | (Inr response, tr) \<Rightarrow>
          (case validate_response response SurrealPermissionException of
             Inl x \<Rightarrow> (Inl x, s, tr)
           | Inr success \<Rightarrow> (Inr (result success), s, tr)))"

text \<open>\<^verbatim>\<open>Surreal.update\<close>\<close>

definition update :: "env \<Rightarrow> surreal \<Rightarrow> string \<Rightarrow> json \<Rightarrow> outcome" where
  "update e s thing data =
     (case send_receive e s (Request (uuid4 e) ''update'' (Some (if data = JNull then [JStr thing] else [JStr thing, data]))) of
        (Inl x, tr) \<Rightarrow> (Inl x, s, tr)
      | (Inr response, tr) \<Rightarrow>
          (case validate_response response SurrealPermissionException of
             Inl x \<Rightarrow> (Inl x, s, tr)
           | Inr success \<Rightarrow> (Inr (result success), s, tr)))"

text \<open>\<^verbatim>\<open>Surreal.merge\<close>\<close>

definition merge :: "env \<Rightarrow> surreal \<Rightarrow> string \<Rightarrow> json \<Rightarrow> outcome" where
  "merge e s thing data =
     (case send_receive e s (Request (uuid4 e) ''change'' (Some (if data = JNull then [JStr thing] else [JStr thing, data]))) of
        (Inl x, tr) \<Rightarrow> (Inl x, s, tr)
      | (Inr response, tr) \<Rightarrow>
          (case validate_response response SurrealPermissionException of
             Inl x \<Rightarrow> (Inl x, s, tr)
           | Inr success \<Rightarrow> (Inr (result success), s, tr)))"

text \<open>\<^verbatim>\<open>Surreal.patch\<close>\<close>

definition patch :: "env \<Rightarrow> surreal \<Rightarrow> string \<Rightarrow> json \<Rightarrow> outcome" where
  "patch e s thing data =
     (case send_receive e s (Request (uuid4 e) ''modify'' (Some (if data = JNull then [JStr thing] else [JStr thing, data]))) of
        (Inl x, tr) \<Rightarrow> (Inl x, s, tr)
      | (Inr response, tr) \<Rightarrow>
          (case validate_response response SurrealPermissionException of
             Inl x \<Rightarrow> (Inl x, s, tr)
           | Inr success \<Rightarrow> (Inr (result success), s, tr)))"

text \<open>\<^verbatim>\<open>Surreal.delete\<close>\<close>

definition delete :: "env \<Rightarrow> surreal \<Rightarrow> string \<Rightarrow> outcome" where
  "delete e s thing =
     (case send_receive e s (Request (uuid4 e) ''delete'' (Some [JStr thing])) of
        (Inl x, tr) \<Rightarrow> (Inl x, s, tr)
      | (Inr response, tr) \<Rightarrow>
          (case validate_response response SurrealPermissionException of
             Inl x \<Rightarrow> (Inl x, s, tr)
           | Inr success \<Rightarrow> (Inr (result success), s, tr)))"

text \<open>\<^verbatim>\<open>Surreal.info\<close>\<close>

definition info :: "env \<Rightarrow> surreal \<Rightarrow> outcome" where
  "info e s =
     (case send_receive e s (Request (uuid4 e) ''info'' None) of
        (Inl x, tr) \<Rightarrow> (Inl x, s, tr)
      | (Inr response, tr) \<Rightarrow>
          (case validate_response response SurrealException of
             Inl x \<Rightarrow> (Inl x, s, tr)
           | Inr success \<Rightarrow> (Inr (result success), s, tr)))"

text \<open>\<^verbatim>\<open>Surreal.live\<close>\<close>

definition live :: "env \<Rightarrow> surreal \<Rightarrow> string \<Rightarrow> outcome" where
  "live e s table =
     (case send_receive e s (Request (uuid4 e) ''live'' (Some [JStr table])) of
        (Inl x, tr) \<Rightarrow> (Inl x, s, tr)
      | (Inr response, tr) \<Rightarrow>
          (case validate_response response SurrealException of
             Inl x \<Rightarrow> (Inl x, s, tr)
           | Inr success \<Rightarrow> (Inr (result success), s, tr)))"

text \<open>\<^verbatim>\<open>Surreal.ping\<close>\<close>

definition ping :: "env \<Rightarrow> surreal \<Rightarrow> outcome" where
  "ping e s =
     (case send_receive e s (Request (uuid4 e) ''ping'' None) of
        (Inl x, tr) \<Rightarrow> (Inl x, s, tr)
      | (Inr response, tr) \<Rightarrow>
          (case validate_response response SurrealException of
             Inl x \<Rightarrow> (Inl x, s, tr)
           | Inr success \<Rightarrow> (Inr (result success), s, tr)))"

text \<open>\<^verbatim>\<open>Surreal.kill\<close>\<close>

definition kill :: "env \<Rightarrow> surreal \<Rightarrow> string \<Rightarrow> outcome" where
  "kill e s qry =
     (case send_receive e s (Request (uuid4 e) ''kill'' (Some [JStr qry])) of
        (Inl x, tr) \<Rightarrow> (Inl x, s, tr)
      | (Inr response, tr) \<Rightarrow>
          (case validate_response response SurrealException of
             Inl x \<Rightarrow> (Inl x, s, tr)
           | Inr success \<Rightarrow> (Inr (result success), s, tr)))"

section \<open>Quantifying over the methods\<close>

text \<open>One constructor for each public RPC method of \<^verbatim>\<open>Surreal\<close>, with its arguments.\<close>

datatype rpc =
    Use string string
  | Signup json
  | Signin json
  | Invalidate
  | Authenticate string
  | Let string json
  | Set string json
  | Query string json
  | Select string
  | Create string json
  | Update string json
  | Merge string json
  | Patch string json
  | Delete string
  | Info
  | Live string
  | Ping
  | Kill string

fun invoke :: "env \<Rightarrow> surreal \<Rightarrow> rpc \<Rightarrow> outcome" where
  "invoke e s (Use namespace database) = use e s namespace database"
| "invoke e s (Signup vars) = signup e s vars"
| "invoke e s (Signin vars) = signin e s vars"
| "invoke e s Invalidate = invalidate e s"
| "invoke e s (Authenticate tok) = authenticate e s tok"
| "invoke e s (Let key val) = let' e s key val"
| "invoke e s (Set key val) = set' e s key val"
| "invoke e s (Query sql vars) = query e s sql vars"
| "invoke e s (Select thing) = select e s thing"
| "invoke e s (Create thing data) = create e s thing data"
| "invoke e s (Update thing data) = update e s thing data"
| "invoke e s (Merge thing data) = merge e s thing data"
| "invoke e s (Patch thing data) = patch e s thing data"
| "invoke e s (Delete thing) = delete e s thing"
| "invoke e s Info = info e s"
| "invoke e s (Live table) = live e s table"
| "invoke e s Ping = ping e s"
| "invoke e s (Kill qry) = kill e s qry"

text \<open>
  The exception class each method hands to \<^verbatim>\<open>_validate_response\<close>, read off the call
  sites: the authentication class in \<^verbatim>\<open>signup\<close>, \<^verbatim>\<open>signin\<close>, \<^verbatim>\<open>invalidate\<close> and
  \<^verbatim>\<open>authenticate\<close>, the permission class in \<^verbatim>\<open>let\<close>, \<^verbatim>\<open>set\<close>, \<^verbatim>\<open>create\<close>, \<^verbatim>\<open>update\<close>,
  \<^verbatim>\<open>merge\<close>, \<^verbatim>\<open>patch\<close> and \<^verbatim>\<open>delete\<close>, and the default everywhere else.
\<close>

fun exception_of :: "rpc \<Rightarrow> exc_class" where
  "exception_of (Signup vars) = SurrealAuthenticationException"
| "exception_of (Signin vars) = SurrealAuthenticationException"
| "exception_of Invalidate = SurrealAuthenticationException"
| "exception_of (Authenticate tok) = SurrealAuthenticationException"
| "exception_of (Let key val) = SurrealPermissionException"
| "exception_of (Set key val) = SurrealPermissionException"
| "exception_of (Create thing data) = SurrealPermissionException"
| "exception_of (Update thing data) = SurrealPermissionException"
| "exception_of (Merge thing data) = SurrealPermissionException"
| "exception_of (Patch thing data) = SurrealPermissionException"
| "exception_of (Delete thing) = SurrealPermissionException"
| "exception_of (Use namespace database) = SurrealException"
| "exception_of (Query sql vars) = SurrealException"
| "exception_of (Select thing) = SurrealException"
| "exception_of Info = SurrealException"
| "exception_of (Live table) = SurrealException"
| "exception_of Ping = SurrealException"
| "exception_of (Kill qry) = SurrealException"

text \<open>The methods that end in \<^verbatim>\<open>return success.result\<close> or \<^verbatim>\<open>return self.token\<close>.\<close>

fun returns_result :: "rpc \<Rightarrow> bool" where
  "returns_result (Use namespace database) = False"
| "returns_result Invalidate = False"
| "returns_result (Authenticate tok) = False"
| "returns_result other = True"

text \<open>The methods that assign \<^verbatim>\<open>self.token\<close>, and what they assign on success.\<close>

fun token_written :: "rpc \<Rightarrow> json \<Rightarrow> json option" where
  "token_written (Signup vars) r = Some r"
| "token_written (Signin vars) r = Some r"
| "token_written Invalidate r = Some JNull"
| "token_written other r = None"

section \<open>A concrete scenario\<close>

text \<open>
  A local server that answers every request with \<^verbatim>\<open>{"id": "1", "result": true}\<close>, a
  transport on which nothing fails, and a pydantic that rejects what is not of the
  annotated type and fills an absent \<^verbatim>\<open>Any\<close> field with \<^verbatim>\<open>None\<close>.
\<close>

definition local_env :: env where
  "local_env =
     \<lparr>uuid4 = ''6fa459ea-ee8a-4ca4-894e-db77e160355e'',
      ClientSession = 1,
      ws_connect = Inr 2,
      send_json = None,
      receive_json = Inr (JObj [(''id'', JStr ''1''), (''result'', JBool True)]),
      ws_close = Inr True,
      session_close = None,
      pydantic_str = (\<lambda>v. None),
      pydantic_int = (\<lambda>v. None),
      pydantic_any_absent = Some JNull\<rparr>"

text \<open>The same environment with another frame waiting on the websocket.\<close>

definition answering :: "json \<Rightarrow> env" where
  "answering frame = local_env\<lparr>receive_json := Inr frame\<rparr>"

text \<open>\<^verbatim>\<open>{"error": {"code": c, "message": m}}\<close>\<close>

definition error_frame :: "int \<Rightarrow> string \<Rightarrow> json" where
  "error_frame c m = JObj [(''error'', JObj [(''code'', JInt c), (''message'', JStr m)])]"

text \<open>\<^verbatim>\<open>db = Surreal('ws://127.0.0.1:8000/rpc')\<close>, then \<^verbatim>\<open>await db.connect()\<close>.\<close>

definition fresh_db :: surreal where
  "fresh_db = init ''ws://127.0.0.1:8000/rpc''"

definition connected_db :: surreal where
  "connected_db = state_after (connect local_env fresh_db)"

definition closed_db :: surreal where
  "closed_db = state_after (close local_env connected_db)"

section \<open>Sessions built through the public interface\<close>

text \<open>
  The sessions a program gets by creating a \<^verbatim>\<open>Surreal\<close> object and calling its public
  methods, in any environment.
\<close>

inductive reachable :: "surreal \<Rightarrow> bool" where
  created: "reachable (init u)"
| after_connect: "reachable s \<Longrightarrow> reachable (state_after (connect e s))"
| after_close: "reachable s \<Longrightarrow> reachable (state_after (close e s))"
| after_invoke: "reachable s \<Longrightarrow> reachable (state_after (invoke e s op))"

section \<open>Programs with several session objects\<close>

text \<open>
  The transport objects a session object holds in its two fields.
\<close>

definition handles :: "surreal \<Rightarrow> handle set" where
  "handles s = set_option (ws s) \<union> set_option (session s)"

text \<open>The object a transport call is made on; creating a client session is made on none.\<close>

fun on_handle :: "tcall \<Rightarrow> handle option" where
  "on_handle NewClientSession = None"
| "on_handle (WsConnect c u) = Some c"
| "on_handle (SendJson w f) = Some w"
| "on_handle (ReceiveJson w) = Some w"
| "on_handle (WsClose w) = Some w"
| "on_handle (SessionClose c) = Some c"

text \<open>
  Python gives every object it creates an identity of its own. A program numbers the
  objects it creates with a counter: in the environment \<open>allocating n e\<close> the client
  session created by \<^verbatim>\<open>aiohttp.ClientSession()\<close> is object \<open>n\<close> and the websocket that
  \<^verbatim>\<open>ws_connect\<close> returns, when it returns, is object \<open>n + 1\<close>; everything else is as in
  \<open>e\<close>.
\<close>

definition allocating :: "handle \<Rightarrow> env \<Rightarrow> env" where
  "allocating n e =
     e\<lparr>ClientSession := n,
       ws_connect := (case ws_connect e of Inl x \<Rightarrow> Inl x | Inr w \<Rightarrow> Inr (Suc n))\<rparr>"

text \<open>
  What a program does with session objects: it creates one (\<^verbatim>\<open>Surreal(url)\<close>), or calls
  connect, close or an RPC method on the object it created as number \<open>i\<close>, in some
  environment.
\<close>

datatype action =
    New string
  | Connect nat env
  | Close nat env
  | Call nat env rpc

record program =
  objects :: "surreal list"
  next_handle :: handle

definition on_object :: "nat \<Rightarrow> (surreal \<Rightarrow> surreal) \<Rightarrow> program \<Rightarrow> program" where
  "on_object i f p =
     (if i < length (objects p) then p\<lparr>objects := (objects p)[i := f (objects p ! i)]\<rparr> else p)"

fun step :: "program \<Rightarrow> action \<Rightarrow> program" where
  "step p (New u) = p\<lparr>objects := objects p @ [init u]\<rparr>"
| "step p (Connect i e) =
     (on_object i (\<lambda>s. state_after (connect (allocating (next_handle p) e) s)) p)
       \<lparr>next_handle := next_handle p + 2\<rparr>"
| "step p (Close i e) = on_object i (\<lambda>s. state_after (close e s)) p"
| "step p (Call i e op) = on_object i (\<lambda>s. state_after (invoke e s op)) p"

definition run :: "action list \<Rightarrow> program" where
  "run acts = foldl step \<lparr>objects = [], next_handle = 0\<rparr> acts"

text \<open>
  The invariant of a running program: every transport object held is one already created,
  and two different session objects hold no transport object in common.
\<close>

definition owned_apart :: "program \<Rightarrow> bool" where
  "owned_apart p =
     ((\<forall>i < length (objects p). \<forall>h \<in> handles (objects p ! i). h < next_handle p)
      \<and> (\<forall>i < length (objects p). \<forall>j < length (objects p).
           i \<noteq> j \<longrightarrow> handles (objects p ! i) \<inter> handles (objects p ! j) = {}))"

section \<open>Basic facts\<close>

lemma fresh_db_simps:
  "client_state fresh_db = CONNECTING" "ws fresh_db = None" "session fresh_db = None"
  "token fresh_db = JNull"
  by (simp_all add: fresh_db_def init_def)

lemma connected_db_eq:
  "connected_db = \<lparr>url = ''ws://127.0.0.1:8000/rpc'', client_state = CONNECTED, token = JNull,
     session = Some 1, ws = Some 2\<rparr>"
  by (simp add: connected_db_def connect_def local_env_def fresh_db_def init_def)

lemma closed_db_eq:
  "closed_db = \<lparr>url = ''ws://127.0.0.1:8000/rpc'', client_state = DISCONNECTED, token = JNull,
     session = Some 1, ws = Some 2\<rparr>"
  by (simp add: closed_db_def connected_db_eq close_def local_env_def)

lemma local_env_simps:
  "uuid4 local_env = ''6fa459ea-ee8a-4ca4-894e-db77e160355e''"
  "ClientSession local_env = 1"
  "ws_connect local_env = Inr 2"
  "send_json local_env = None"
  "receive_json local_env = Inr (JObj [(''id'', JStr ''1''), (''result'', JBool True)])"
  "ws_close local_env = Inr True"
  "session_close local_env = None"
  "pydantic_any_absent local_env = Some JNull"
  by (simp_all add: local_env_def)

lemma answering_simps:
  "uuid4 (answering f) = ''6fa459ea-ee8a-4ca4-894e-db77e160355e''"
  "send_json (answering f) = None"
  "receive_json (answering f) = Inr f"
  by (simp_all add: answering_def local_env_def)

lemma send_receive_not_connected:
  "client_state s \<noteq> CONNECTED \<Longrightarrow>
   send_receive e s r = (Inl (Raised SurrealException ''Not connected to Surreal server.''), [])"
  by (simp add: send_receive_def send_def validate_connection_def)

lemma send_receive_frame:
  "client_state s = CONNECTED \<Longrightarrow> ws s = Some w \<Longrightarrow> send_json e = None \<Longrightarrow>
   receive_json e = Inr f \<Longrightarrow>
   send_receive e s r = (decode e f, [SendJson w (dict r), ReceiveJson w])"
  by (simp add: send_receive_def send_def recv_def validate_connection_def)

lemma send_receive_first_call:
  "client_state s = CONNECTED \<Longrightarrow> ws s = Some w \<Longrightarrow>
   take 1 (snd (send_receive e s r)) = [SendJson w (dict r)]"
  by (simp add: send_receive_def send_def recv_def validate_connection_def
      split: option.splits sum.splits prod.splits)

lemmas method_defs =
  use_def signup_def signin_def invalidate_def authenticate_def let'_def set'_def query_def
  select_def create_def update_def merge_def patch_def delete_def info_def live_def ping_def
  kill_def

lemma decode_success_frame:
  "decode e (JObj [(''id'', JStr x), (''result'', r)]) = Inr (ResponseSuccess x r)"
  by (simp add: decode_def dict_get_def new_ResponseSuccess_def str_field_def any_field_def)

lemma decode_error_frame:
  assumes "map_of kw ''error'' = Some (JObj ekw)"
    and "map_of ekw ''code'' = Some (JInt c)"
    and "map_of ekw ''message'' = Some (JStr m)"
  shows "decode e (JObj kw) = Inr (ResponseError c m)"
proof -
  from assms(2) have "ekw \<noteq> []" by auto
  with assms show ?thesis
    by (simp add: decode_def dict_get_def new_ResponseError_def int_field_def str_field_def)
qed

lemma invoke_keeps_connection:
  "client_state (state_after (invoke e s op)) = client_state s
   \<and> ws (state_after (invoke e s op)) = ws s
   \<and> session (state_after (invoke e s op)) = session s
   \<and> url (state_after (invoke e s op)) = url s"
  by (cases op) (auto simp add: method_defs split: prod.splits sum.splits)

lemma close_keeps_handles:
  "ws (state_after (close e s)) = ws s \<and> session (state_after (close e s)) = session s"
  by (simp add: close_def split: option.splits sum.splits)

lemma close_state:
  "client_state (state_after (close e s)) = DISCONNECTED
   \<or> client_state (state_after (close e s)) = client_state s"
  by (simp add: close_def split: option.splits sum.splits)

lemma connect_state:
  "(client_state (state_after (connect e s)) = CONNECTED
      \<and> ws (state_after (connect e s)) \<noteq> None)
   \<or> (client_state (state_after (connect e s)) = client_state s
      \<and> ws (state_after (connect e s)) = ws s)"
  by (simp add: connect_def Let_def split: sum.splits)

text \<open>
  A session built through the public interface has a websocket whenever its state is
  Connected, so the \<^verbatim>\<open>assert self.ws is not None\<close> of \<^verbatim>\<open>_send\<close> and \<^verbatim>\<open>_recv\<close> holds there.
\<close>

lemma reachable_connected_has_ws:
  "reachable s \<Longrightarrow> client_state s = CONNECTED \<Longrightarrow> ws s \<noteq> None"
proof (induction rule: reachable.induct)
  case (created u)
  then show ?case by (simp add: init_def)
next
  case (after_connect s e)
  then show ?case using connect_state [of e s] by auto
next
  case (after_close s e)
  then show ?case using close_state [of e s] close_keeps_handles [of e s] by auto
next
  case (after_invoke s e op)
  then show ?case using invoke_keeps_connection [of e s op] by auto
qed

lemma handles_init: "handles (init u) = {}"
  by (simp add: handles_def init_def)

lemma handles_connect:
  "handles (state_after (connect (allocating n e) s)) \<subseteq> handles s \<union> {n, Suc n}"
  by (auto simp add: handles_def connect_def allocating_def Let_def split: sum.splits)

lemma handles_close: "handles (state_after (close e s)) = handles s"
  by (simp add: handles_def close_keeps_handles)

lemma handles_invoke: "handles (state_after (invoke e s op)) = handles s"
  by (simp add: handles_def invoke_keeps_connection)

lemma owned_apart_on_object:
  assumes inv: "owned_apart p"
    and f: "handles (f (objects p ! i)) \<subseteq> handles (objects p ! i) \<union> {n. next_handle p \<le> n \<and> n < m}"
    and m: "next_handle p \<le> m"
  shows "owned_apart ((on_object i f p)\<lparr>next_handle := m\<rparr>)"
proof (cases "i < length (objects p)")
  case False
  with inv m show ?thesis
    by (fastforce simp add: owned_apart_def on_object_def)
next
  case True
  let ?q = "(on_object i f p)\<lparr>next_handle := m\<rparr>"
  have len: "length (objects ?q) = length (objects p)"
    using True by (simp add: on_object_def)
  have at_i: "objects ?q ! i = f (objects p ! i)"
    using True by (simp add: on_object_def)
  have other: "objects ?q ! j = objects p ! j" if "j \<noteq> i" for j
    using True that by (simp add: on_object_def)
  have old: "h < next_handle p" if "j < length (objects p)" "h \<in> handles (objects p ! j)" for j h
    using inv that by (auto simp add: owned_apart_def)
  have apart: "handles (objects p ! j) \<inter> handles (objects p ! k) = {}"
    if "j < length (objects p)" "k < length (objects p)" "j \<noteq> k" for j k
    using inv that by (auto simp add: owned_apart_def)
  have bound: "h < m" if "j < length (objects p)" "h \<in> handles (objects ?q ! j)" for j h
  proof (cases "j = i")
    case True
    with that f at_i old [of i h] m \<open>i < length (objects p)\<close> show ?thesis by auto
  next
    case False
    with that other [of j] old [of j h] m show ?thesis by auto
  qed
  have newer: "handles (objects ?q ! i) \<inter> handles (objects p ! k) = {}"
    if "k < length (objects p)" "k \<noteq> i" for k
  proof -
    have "h \<notin> handles (objects p ! k)" if hi: "h \<in> handles (objects ?q ! i)" for h
    proof (cases "h \<in> handles (objects p ! i)")
      case True
      with apart [of i k] \<open>k < length (objects p)\<close> \<open>k \<noteq> i\<close> \<open>i < length (objects p)\<close>
      show ?thesis by auto
    next
      case False
      with hi f at_i have "next_handle p \<le> h" by auto
      with old [of k h] \<open>k < length (objects p)\<close> show ?thesis by auto
    qed
    then show ?thesis by auto
  qed
  have disj: "handles (objects ?q ! j) \<inter> handles (objects ?q ! k) = {}"
    if "j < length (objects p)" "k < length (objects p)" "j \<noteq> k" for j k
  proof (cases "j = i")
    case True
    with that newer [of k] other [of k] show ?thesis by auto
  next
    case False
    show ?thesis
    proof (cases "k = i")
      case True
      with that \<open>j \<noteq> i\<close> newer [of j] other [of j] show ?thesis by auto
    next
      case False
      with that \<open>j \<noteq> i\<close> other [of j] other [of k] apart [of j k] show ?thesis by auto
    qed
  qed
  show ?thesis
    unfolding owned_apart_def len using bound disj by auto
qed

lemma owned_apart_same_counter:
  assumes "owned_apart p" and "handles (f (objects p ! i)) = handles (objects p ! i)"
  shows "owned_apart (on_object i f p)"
proof -
  have "owned_apart ((on_object i f p)\<lparr>next_handle := next_handle p\<rparr>)"
    using assms by (intro owned_apart_on_object) auto
  moreover have "(on_object i f p)\<lparr>next_handle := next_handle p\<rparr> = on_object i f p"
    by (simp add: on_object_def)
  ultimately show ?thesis by simp
qed

lemma owned_apart_step: "owned_apart p \<Longrightarrow> owned_apart (step p a)"
proof (cases a)
  case (New u)
  assume "owned_apart p"
  then show ?thesis
    unfolding New owned_apart_def
    by (auto simp add: nth_append handles_init)
next
  case (Connect i e)
  assume inv: "owned_apart p"
  have "handles (state_after (connect (allocating (next_handle p) e) (objects p ! i)))
      \<subseteq> handles (objects p ! i) \<union> {n. next_handle p \<le> n \<and> n < next_handle p + 2}"
    using handles_connect [of "next_handle p" e "objects p ! i"] by auto
  with inv show ?thesis
    unfolding Connect step.simps by (intro owned_apart_on_object) auto
next
  case (Close i e)
  assume "owned_apart p"
  then show ?thesis
    unfolding Close step.simps by (intro owned_apart_same_counter) (simp_all add: handles_close)
next
  case (Call i e op)
  assume "owned_apart p"
  then show ?thesis
    unfolding Call step.simps by (intro owned_apart_same_counter) (simp_all add: handles_invoke)
qed

lemma owned_apart_run: "owned_apart (run acts)"
proof (induction acts rule: rev_induct)
  case Nil
  show ?case by (simp add: run_def owned_apart_def)
next
  case (snoc a acts)
  then show ?case by (simp add: run_def owned_apart_step)
qed

lemma send_receive_on_ws:
  "c \<in> set (snd (send_receive e s r)) \<Longrightarrow> on_handle c = ws s \<and> ws s \<noteq> None"
  by (auto simp add: send_receive_def send_def recv_def
      split: sum.splits option.splits prod.splits)

lemma calls_of_send_receive:
  "send_receive e s r = (a, tr) \<Longrightarrow> \<exists>q. tr = snd (send_receive e s q)"
  by (metis snd_conv)

lemma invoke_calls: "\<exists>r. transport_calls (invoke e s op) = snd (send_receive e s r)"
  by (cases op)
    (auto simp add: method_defs split: prod.splits sum.splits intro: calls_of_send_receive)

section \<open>Claims\<close>

text \<open>
  C1. For every RPC method (use, signup, signin, invalidate, authenticate, let, set,
  query, select, create, update, merge, patch, delete, info, live, ping, kill): when the
  connection state of the session is Connecting or Disconnected, the call raises
  SurrealException "Not connected to Surreal server.", the session is left as it was, and
  the transport is not invoked at all: the list of transport calls is empty, so there is
  neither a send nor a receive.
\<close>

theorem not_connected_fails_before_transport:
  assumes "client_state s = CONNECTING \<or> client_state s = DISCONNECTED"
  shows "invoke e s op =
           (Inl (Raised SurrealException ''Not connected to Surreal server.''), s, [])"
proof -
  from assms have "client_state s \<noteq> CONNECTED" by auto
  then have sr: "\<And>r. send_receive e s r =
      (Inl (Raised SurrealException ''Not connected to Surreal server.''), [])"
    by (rule send_receive_not_connected)
  show ?thesis
    by (cases op) (simp_all add: method_defs sr)
qed

theorem not_connected_fails_before_transport_witness:
  "invoke local_env fresh_db (Select ''person'') =
     (Inl (Raised SurrealException ''Not connected to Surreal server.''), fresh_db, [])
   \<and> invoke local_env closed_db Ping =
     (Inl (Raised SurrealException ''Not connected to Surreal server.''), closed_db, [])"
proof -
  have a: "client_state fresh_db = CONNECTING \<or> client_state fresh_db = DISCONNECTED"
    by (simp add: fresh_db_simps)
  have b: "client_state closed_db = CONNECTING \<or> client_state closed_db = DISCONNECTED"
    by (simp add: closed_db_eq)
  show ?thesis
    using not_connected_fails_before_transport [OF a, of local_env "Select ''person''"]
      not_connected_fails_before_transport [OF b, of local_env Ping]
    by simp
qed

text \<open>
  C7. A Request constructed with absent (None) params has the empty sequence as its
  params, and its serialised envelope carries the params list []. In particular ping, in
  the Connected state, sends first {"id": <uuid>, "method": "ping", "params": []} on the
  websocket of the session.
\<close>

theorem absent_params_are_empty_list:
  "params (Request i m None) = []
   \<and> dict (Request i m None) =
       JObj [(''id'', JStr i), (''method'', JStr m), (''params'', JList [])]
   \<and> (client_state s = CONNECTED \<and> ws s = Some w \<longrightarrow>
        take 1 (transport_calls (ping e s)) =
          [SendJson w (JObj [(''id'', JStr (uuid4 e)), (''method'', JStr ''ping''),
                             (''params'', JList [])])])"
proof -
  have d: "dict (Request i m None) =
       JObj [(''id'', JStr i), (''method'', JStr m), (''params'', JList [])]" for i m
    by (simp add: dict_def Request_def)
  have "take 1 (transport_calls (ping e s)) = [SendJson w (dict (Request (uuid4 e) ''ping'' None))]"
    if "client_state s = CONNECTED" "ws s = Some w"
    using send_receive_first_call [OF that, of e "Request (uuid4 e) ''ping'' None"]
    by (auto simp add: ping_def split: prod.splits sum.splits)
  then show ?thesis
    by (simp add: d) (simp add: Request_def)
qed

theorem absent_params_are_empty_list_witness:
  "params (Request ''a'' ''ping'' None) = []
   \<and> transport_calls (ping local_env connected_db) =
       [SendJson 2 (JObj [(''id'', JStr ''6fa459ea-ee8a-4ca4-894e-db77e160355e''),
                          (''method'', JStr ''ping''), (''params'', JList [])]),
        ReceiveJson 2]
   \<and> take 1 (transport_calls (ping local_env connected_db)) =
       [SendJson 2 (JObj [(''id'', JStr ''6fa459ea-ee8a-4ca4-894e-db77e160355e''),
                          (''method'', JStr ''ping''), (''params'', JList [])])]"
proof -
  have c: "client_state connected_db = CONNECTED \<and> ws connected_db = Some 2"
    by (simp add: connected_db_eq)
  have t: "transport_calls (ping local_env connected_db) =
       [SendJson 2 (dict (Request (uuid4 local_env) ''ping'' None)), ReceiveJson 2]"
    using c by (simp add: ping_def send_receive_frame [where w = 2] local_env_simps
        split: sum.splits)
  show ?thesis
    using absent_params_are_empty_list [of "''a''" "''ping''" connected_db 2 local_env] c t
    by (simp add: local_env_simps dict_def Request_def)
qed

text \<open>
  C2, as stated, fails. The claim: every server error response raises the kind of error
  chosen by the calling method, the permission kind for kill among others, and the error
  carries the server's message and the server's integer code. In the code, kill passes
  no exception class and so raises the generic SurrealException; and two error frames
  with the same message and the codes 100 and 200 raise the very same exception.
\<close>

theorem kill_raises_generic_and_code_is_dropped:
  "returned (kill (answering (error_frame 100 ''denied'')) connected_db ''q1'') =
     Inl (Raised SurrealException ''denied'')
   \<and> returned (signin (answering (error_frame 100 ''bad auth'')) connected_db JNull) =
     returned (signin (answering (error_frame 200 ''bad auth'')) connected_db JNull)"
  by (simp add: kill_def signin_def error_frame_def connected_db_eq answering_simps
      send_receive_frame [where w = 2] decode_error_frame)

text \<open>
  C2, amended. For every server error response, that is a received frame whose error
  field is a mapping with an integer code and a string message, in the Connected state:
  the call raises an exception of the class its method passes to the validation, which
  is SurrealAuthenticationException for signup, signin, authenticate and invalidate,
  SurrealPermissionException for let, set, create, update, merge, patch and delete, and
  the generic SurrealException for use, query, select, info, live, ping and kill. The
  exception is built from the server's message alone, verbatim; the code is not part of
  it. The session is left unchanged.
\<close>

theorem server_error_raises_class_of_call_site:
  assumes "client_state s = CONNECTED" and "ws s = Some w" and "send_json e = None"
    and "receive_json e = Inr (JObj kw)"
    and "map_of kw ''error'' = Some (JObj ekw)"
    and "map_of ekw ''code'' = Some (JInt c)"
    and "map_of ekw ''message'' = Some (JStr m)"
  shows "returned (invoke e s op) = Inl (Raised (exception_of op) m)
         \<and> state_after (invoke e s op) = s"
proof -
  have d: "decode e (JObj kw) = Inr (ResponseError c m)"
    using assms(5-7) by (rule decode_error_frame)
  have sr: "\<And>r. send_receive e s r =
      (Inr (ResponseError c m), [SendJson w (dict r), ReceiveJson w])"
    using send_receive_frame [OF assms(1-4)] d by simp
  show ?thesis
    by (cases op) (simp_all add: method_defs sr)
qed

theorem server_error_raises_class_of_call_site_witness:
  "returned (invoke (answering (error_frame 100 ''bad auth'')) connected_db (Signin JNull)) =
     Inl (Raised SurrealAuthenticationException ''bad auth'')
   \<and> returned (invoke (answering (error_frame 7 ''no'')) connected_db (Delete ''person'')) =
     Inl (Raised SurrealPermissionException ''no'')
   \<and> state_after (invoke (answering (error_frame 7 ''no'')) connected_db (Delete ''person'')) =
     connected_db"
proof -
  have c: "client_state connected_db = CONNECTED" "ws connected_db = Some 2"
    by (simp_all add: connected_db_eq)
  have f: "send_json (answering (error_frame k t)) = None"
    "receive_json (answering (error_frame k t)) =
       Inr (JObj [(''error'', JObj [(''code'', JInt k), (''message'', JStr t)])])" for k t
    by (simp_all add: answering_simps error_frame_def)
  have m: "map_of [(''error'', JObj [(''code'', JInt k), (''message'', JStr t)])] ''error'' =
       Some (JObj [(''code'', JInt k), (''message'', JStr t)])"
    "map_of [(''code'', JInt k), (''message'', JStr t)] ''code'' = Some (JInt k)"
    "map_of [(''code'', JInt k), (''message'', JStr t)] ''message'' = Some (JStr t)" for k t
    by simp_all
  show ?thesis
    using server_error_raises_class_of_call_site [OF c f m, of 100 "''bad auth''" "Signin JNull"]
      server_error_raises_class_of_call_site [OF c f m, of 7 "''no''" "Delete ''person''"]
    by simp
qed

text \<open>
  C3, as stated, fails. The claim: a received frame is parsed as an Error response if and
  only if it carries the error field, and every frame without it is parsed as Success.
  The frame {"error": null, "id": "1", "result": 5} carries the error field and is
  parsed as the Success response with id "1" and result 5; the frame {"result": 5}
  carries no error field and is parsed as neither: the construction of the Success
  response raises a validation error, because there is no id.
\<close>

theorem null_error_field_parses_to_success:
  "decode local_env (JObj [(''error'', JNull), (''id'', JStr ''1''), (''result'', JInt 5)]) =
     Inr (ResponseSuccess ''1'' (JInt 5))
   \<and> decode local_env (JObj [(''result'', JInt 5)]) = Inl ValidationError"
  by (simp add: decode_def dict_get_def new_ResponseSuccess_def str_field_def any_field_def)

text \<open>
  C3, amended. The frame is classified by the truth value of its error field, not by its
  presence. A frame that is a mapping is parsed as an Error response only if its error
  field is present and truthy, and as a Success response only if its error field is
  absent or falsy (null, false, 0, an empty string, list or mapping). A frame whose error
  field is a mapping with an integer code and a string message parses to the Error
  response with that code and message; a frame whose error field is absent or falsy and
  that has a string id and a result parses to the Success response with that id and
  result.
\<close>

theorem frame_classified_by_truthy_error_field:
  "(truthy (dict_get kw ''error'') \<longrightarrow>
      (\<forall>i r. decode e (JObj kw) \<noteq> Inr (ResponseSuccess i r)))
   \<and> (\<not> truthy (dict_get kw ''error'') \<longrightarrow>
      (\<forall>c m. decode e (JObj kw) \<noteq> Inr (ResponseError c m)))
   \<and> (map_of kw ''error'' = Some (JObj ekw) \<and> map_of ekw ''code'' = Some (JInt c)
        \<and> map_of ekw ''message'' = Some (JStr m) \<longrightarrow>
      decode e (JObj kw) = Inr (ResponseError c m))
   \<and> (\<not> truthy (dict_get kw ''error'') \<and> map_of kw ''id'' = Some (JStr i)
        \<and> map_of kw ''result'' = Some r \<longrightarrow>
      decode e (JObj kw) = Inr (ResponseSuccess i r))"
proof (intro conjI impI allI)
  fix i r
  assume "truthy (dict_get kw ''error'')"
  then show "decode e (JObj kw) \<noteq> Inr (ResponseSuccess i r)"
    by (auto simp add: decode_def new_ResponseError_def split: json.splits option.splits)
next
  fix c m
  assume "\<not> truthy (dict_get kw ''error'')"
  then show "decode e (JObj kw) \<noteq> Inr (ResponseError c m)"
    by (auto simp add: decode_def new_ResponseSuccess_def split: option.splits)
next
  assume "map_of kw ''error'' = Some (JObj ekw) \<and> map_of ekw ''code'' = Some (JInt c)
        \<and> map_of ekw ''message'' = Some (JStr m)"
  then show "decode e (JObj kw) = Inr (ResponseError c m)"
    by (simp add: decode_error_frame)
next
  assume "\<not> truthy (dict_get kw ''error'') \<and> map_of kw ''id'' = Some (JStr i)
        \<and> map_of kw ''result'' = Some r"
  then show "decode e (JObj kw) = Inr (ResponseSuccess i r)"
    by (simp add: decode_def new_ResponseSuccess_def str_field_def any_field_def)
qed

theorem frame_classified_by_truthy_error_field_witness:
  "decode local_env (error_frame 100 ''bad auth'') = Inr (ResponseError 100 ''bad auth'')
   \<and> decode local_env (JObj [(''id'', JStr ''1''), (''result'', JBool True)]) =
       Inr (ResponseSuccess ''1'' (JBool True))
   \<and> decode local_env (JObj [(''error'', JStr ''boom'')]) \<noteq> Inr (ResponseSuccess ''1'' JNull)
   \<and> decode local_env (JObj [(''error'', JInt 0), (''code'', JInt 1), (''message'', JStr ''m'')])
       \<noteq> Inr (ResponseError 1 ''m'')"
proof -
  have a: "decode local_env (error_frame 100 ''bad auth'') = Inr (ResponseError 100 ''bad auth'')"
    using frame_classified_by_truthy_error_field
      [of "[(''error'', JObj [(''code'', JInt 100), (''message'', JStr ''bad auth'')])]"
        local_env "[(''code'', JInt 100), (''message'', JStr ''bad auth'')]" 100 "''bad auth''"]
    by (simp add: error_frame_def)
  have b: "decode local_env (JObj [(''id'', JStr ''1''), (''result'', JBool True)]) =
       Inr (ResponseSuccess ''1'' (JBool True))"
    using frame_classified_by_truthy_error_field
      [of "[(''id'', JStr ''1''), (''result'', JBool True)]" local_env _ _ _ "''1''" "JBool True"]
    by (simp add: dict_get_def)
  have c: "decode local_env (JObj [(''error'', JStr ''boom'')]) \<noteq> Inr (ResponseSuccess ''1'' JNull)"
    using frame_classified_by_truthy_error_field [of "[(''error'', JStr ''boom'')]" local_env]
    by (simp add: dict_get_def)
  have d: "decode local_env (JObj [(''error'', JInt 0), (''code'', JInt 1), (''message'', JStr ''m'')])
       \<noteq> Inr (ResponseError 1 ''m'')"
    using frame_classified_by_truthy_error_field
      [of "[(''error'', JInt 0), (''code'', JInt 1), (''message'', JStr ''m'')]" local_env]
    by (simp add: dict_get_def)
  from a b c d show ?thesis by simp
qed

text \<open>
  C4, as stated, fails. The claim: close() never raises, even when the close of the
  transport fails, and always moves the state to Disconnected. In the code the two closes
  are awaited without any handler: when the close of the websocket raises, close() raises
  the same exception, the client session is not closed, and the state stays Connected.
\<close>

theorem close_propagates_transport_failure:
  "close (local_env\<lparr>ws_close := Inl (External ''CancelledError'')\<rparr>) connected_db =
     (Inl (External ''CancelledError''), connected_db, [WsClose 2])
   \<and> client_state connected_db = CONNECTED"
  by (simp add: close_def connected_db_eq)

text \<open>
  C4, amended. close() calls the close of the websocket when the session holds a
  websocket, and then the close of the client session when it holds one. When every
  close it calls returns (whatever the websocket's close returns), close() raises nothing
  and moves the state to Disconnected, from any state, changing nothing else; so calling
  close() twice in sequence, with closes that return, raises nothing and leaves the state
  Disconnected after each call. No exception is handled: an exception raised by the close
  of the websocket leaves close() at once, the client session is not closed and the
  session, its state included, is as it was; an exception raised by the close of the
  client session leaves close() as well and the session is as it was.
\<close>

theorem close_returns_or_propagates:
  "((ws s = None \<or> (\<exists>b. ws_close e = Inr b)) \<and> (session s = None \<or> session_close e = None)
      \<longrightarrow> returned (close e s) = Inr JNull
        \<and> state_after (close e s) = s\<lparr>client_state := DISCONNECTED\<rparr>)
   \<and> (ws s = Some w \<and> ws_close e = Inl x \<longrightarrow> close e s = (Inl x, s, [WsClose w]))
   \<and> ((ws s = None \<or> (\<exists>b. ws_close e = Inr b)) \<and> session s = Some c
        \<and> session_close e = Some x
      \<longrightarrow> returned (close e s) = Inl x \<and> state_after (close e s) = s
        \<and> last (transport_calls (close e s)) = SessionClose c)
   \<and> (ws_close e1 = Inr b1 \<and> session_close e1 = None
        \<and> ws_close e2 = Inr b2 \<and> session_close e2 = None
      \<longrightarrow> returned (close e1 s) = Inr JNull
        \<and> client_state (state_after (close e1 s)) = DISCONNECTED
        \<and> returned (close e2 (state_after (close e1 s))) = Inr JNull
        \<and> client_state (state_after (close e2 (state_after (close e1 s)))) = DISCONNECTED)"
proof (intro conjI)
  show "(ws s = None \<or> (\<exists>b. ws_close e = Inr b)) \<and> (session s = None \<or> session_close e = None)
      \<longrightarrow> returned (close e s) = Inr JNull
        \<and> state_after (close e s) = s\<lparr>client_state := DISCONNECTED\<rparr>"
    by (auto simp add: close_def split: option.splits sum.splits)
next
  show "ws s = Some w \<and> ws_close e = Inl x \<longrightarrow> close e s = (Inl x, s, [WsClose w])"
    by (simp add: close_def)
next
  show "(ws s = None \<or> (\<exists>b. ws_close e = Inr b)) \<and> session s = Some c
        \<and> session_close e = Some x
      \<longrightarrow> returned (close e s) = Inl x \<and> state_after (close e s) = s
        \<and> last (transport_calls (close e s)) = SessionClose c"
    by (auto simp add: close_def split: option.splits sum.splits)
next
  have one: "returned (close e t) = Inr JNull
      \<and> client_state (state_after (close e t)) = DISCONNECTED"
    if "ws_close e = Inr b" "session_close e = None" for e t b
    using that by (simp add: close_def split: option.splits)
  show "ws_close e1 = Inr b1 \<and> session_close e1 = None
        \<and> ws_close e2 = Inr b2 \<and> session_close e2 = None
      \<longrightarrow> returned (close e1 s) = Inr JNull
        \<and> client_state (state_after (close e1 s)) = DISCONNECTED
        \<and> returned (close e2 (state_after (close e1 s))) = Inr JNull
        \<and> client_state (state_after (close e2 (state_after (close e1 s)))) = DISCONNECTED"
    using one by blast
qed

theorem close_returns_or_propagates_witness:
  "returned (close local_env connected_db) = Inr JNull
   \<and> state_after (close local_env connected_db) = connected_db\<lparr>client_state := DISCONNECTED\<rparr>
   \<and> close (local_env\<lparr>ws_close := Inl (External ''RuntimeError'')\<rparr>) connected_db =
       (Inl (External ''RuntimeError''), connected_db, [WsClose 2])
   \<and> returned (close (local_env\<lparr>session_close := Some (External ''OSError'')\<rparr>) connected_db) =
       Inl (External ''OSError'')
   \<and> state_after (close (local_env\<lparr>session_close := Some (External ''OSError'')\<rparr>) connected_db) =
       connected_db
   \<and> returned (close (local_env\<lparr>ws_close := Inr False\<rparr>)
        (state_after (close local_env connected_db))) = Inr JNull
   \<and> client_state (state_after (close (local_env\<lparr>ws_close := Inr False\<rparr>)
        (state_after (close local_env connected_db)))) = DISCONNECTED"
proof -
  have c: "ws connected_db = Some 2" "session connected_db = Some 1"
    by (simp_all add: connected_db_eq)
  have l: "ws_close local_env = Inr True" "session_close local_env = None"
    by (simp_all add: local_env_simps)
  have w: "ws_close (local_env\<lparr>ws_close := Inl (External ''RuntimeError'')\<rparr>) =
      Inl (External ''RuntimeError'')"
    by simp
  have o: "ws_close (local_env\<lparr>session_close := Some (External ''OSError'')\<rparr>) = Inr True"
    "session_close (local_env\<lparr>session_close := Some (External ''OSError'')\<rparr>) =
      Some (External ''OSError'')"
    by (simp_all add: local_env_simps)
  have f: "ws_close (local_env\<lparr>ws_close := Inr False\<rparr>) = Inr False"
    "session_close (local_env\<lparr>ws_close := Inr False\<rparr>) = None"
    by (simp_all add: local_env_simps)
  note t1 = close_returns_or_propagates
    [of connected_db local_env 2 "External ''RuntimeError''" 1 local_env True
      "local_env\<lparr>ws_close := Inr False\<rparr>" False]
  note t2 = close_returns_or_propagates
    [of connected_db "local_env\<lparr>ws_close := Inl (External ''RuntimeError'')\<rparr>" 2
      "External ''RuntimeError''" 1 local_env True local_env True]
  note t3 = close_returns_or_propagates
    [of connected_db "local_env\<lparr>session_close := Some (External ''OSError'')\<rparr>" 2
      "External ''OSError''" 1 local_env True local_env True]
  from t1 l have a: "returned (close local_env connected_db) = Inr JNull
      \<and> state_after (close local_env connected_db) = connected_db\<lparr>client_state := DISCONNECTED\<rparr>"
    by blast
  from t2 c w have b: "close (local_env\<lparr>ws_close := Inl (External ''RuntimeError'')\<rparr>) connected_db =
       (Inl (External ''RuntimeError''), connected_db, [WsClose 2])"
    by blast
  from t3 c o have d: "returned (close (local_env\<lparr>session_close := Some (External ''OSError'')\<rparr>)
        connected_db) = Inl (External ''OSError'')
      \<and> state_after (close (local_env\<lparr>session_close := Some (External ''OSError'')\<rparr>) connected_db) =
        connected_db"
    by blast
  from t1 l f have g: "returned (close (local_env\<lparr>ws_close := Inr False\<rparr>)
        (state_after (close local_env connected_db))) = Inr JNull
      \<and> client_state (state_after (close (local_env\<lparr>ws_close := Inr False\<rparr>)
        (state_after (close local_env connected_db)))) = DISCONNECTED"
    by blast
  from a b d g show ?thesis by blast
qed

text \<open>
  C5, as stated, fails. The claim: connect() is valid in the Connecting state only, and a
  session that close() has moved to Disconnected is not brought back to Connected by a
  later connect(). The code of connect() does not look at the state: on the closed
  session of the scenario, connect() returns and the state is Connected again.
\<close>

theorem connect_revives_closed_session:
  "client_state closed_db = DISCONNECTED
   \<and> returned (connect local_env closed_db) = Inr JNull
   \<and> client_state (state_after (connect local_env closed_db)) = CONNECTED"
  by (simp add: closed_db_eq connect_def local_env_simps)

text \<open>
  C5, amended. connect() has no guard on the state. From every state, Connecting,
  Connected or Disconnected, a connect() whose websocket opens returns and sets the state
  to Connected, so a session closed before is connected again; a connect() whose
  websocket fails to open raises that failure and leaves the state as it was.
\<close>

theorem connect_ignores_current_state:
  "(ws_connect e = Inr w \<longrightarrow>
      returned (connect e s) = Inr JNull
      \<and> client_state (state_after (connect e s)) = CONNECTED)
   \<and> (ws_connect e = Inl x \<longrightarrow>
      returned (connect e s) = Inl x
      \<and> client_state (state_after (connect e s)) = client_state s)"
  by (simp add: connect_def Let_def)

theorem connect_ignores_current_state_witness:
  "client_state (state_after (connect local_env closed_db)) = CONNECTED
   \<and> returned (connect (local_env\<lparr>ws_connect := Inl (External ''ClientConnectorError'')\<rparr>)
        fresh_db) = Inl (External ''ClientConnectorError'')
   \<and> client_state (state_after
        (connect (local_env\<lparr>ws_connect := Inl (External ''ClientConnectorError'')\<rparr>) fresh_db)) =
       CONNECTING"
  using connect_ignores_current_state [of local_env 2 closed_db]
    connect_ignores_current_state
      [of "local_env\<lparr>ws_connect := Inl (External ''ClientConnectorError'')\<rparr>" _ fresh_db
        "External ''ClientConnectorError''"]
  by (simp add: local_env_simps fresh_db_simps)

text \<open>
  C6, as stated, fails. The claim: after every successful exchange in the Connected
  state the call returns the result of the received success frame unchanged. The method
  use has no return statement: with the frame {"id": "1", "result": 5} received, it
  returns None.
\<close>

theorem use_discards_result:
  "returned (use (answering (JObj [(''id'', JStr ''1''), (''result'', JInt 5)])) connected_db
      ''test'' ''test'') = Inr JNull"
  by (simp add: use_def connected_db_eq answering_simps send_receive_frame [where w = 2]
      decode_success_frame)

text \<open>
  C6, amended. In the Connected state, when the request is sent and the next received
  frame is {"id": X, "result": R}, every method other than use, invalidate and
  authenticate returns exactly R, for any value R (null, number, string, mapping, list,
  nested or not); use, invalidate and authenticate raise nothing and return None.
\<close>

theorem success_result_returned_unchanged:
  assumes "client_state s = CONNECTED" and "ws s = Some w" and "send_json e = None"
    and "receive_json e = Inr (JObj [(''id'', JStr x), (''result'', r)])"
  shows "returned (invoke e s op) = Inr (if returns_result op then r else JNull)"
proof -
  have sr: "\<And>q. send_receive e s q =
      (Inr (ResponseSuccess x r), [SendJson w (dict q), ReceiveJson w])"
    using send_receive_frame [OF assms] by (simp add: decode_success_frame)
  show ?thesis
    by (cases op) (simp_all add: method_defs sr)
qed

theorem success_result_returned_unchanged_witness:
  "returned (invoke (answering (JObj [(''id'', JStr ''1''),
       (''result'', JList [JObj [(''name'', JStr ''Tobie''), (''tags'', JList [JInt 1, JNull])]])]))
     connected_db (Select ''person'')) =
     Inr (JList [JObj [(''name'', JStr ''Tobie''), (''tags'', JList [JInt 1, JNull])]])
   \<and> returned (invoke local_env connected_db Ping) = Inr (JBool True)
   \<and> returned (invoke local_env connected_db (Authenticate ''jwt'')) = Inr JNull"
proof -
  have c: "client_state connected_db = CONNECTED" "ws connected_db = Some 2"
    by (simp_all add: connected_db_eq)
  have f: "send_json (answering (JObj [(''id'', JStr ''1''), (''result'', v)])) = None"
    "receive_json (answering (JObj [(''id'', JStr ''1''), (''result'', v)])) =
       Inr (JObj [(''id'', JStr ''1''), (''result'', v)])" for v
    by (simp_all add: answering_simps)
  have l: "send_json local_env = None"
    "receive_json local_env = Inr (JObj [(''id'', JStr ''1''), (''result'', JBool True)])"
    by (simp_all add: local_env_simps)
  show ?thesis
    using success_result_returned_unchanged [OF c f, of _ "Select ''person''"]
      success_result_returned_unchanged [OF c l, of Ping]
      success_result_returned_unchanged [OF c l, of "Authenticate ''jwt''"]
    by simp
qed

text \<open>
  C8. The cached token is written by the authentication flow only. A signup or signin
  that returns sets the token to the value it returns, which is the result of the
  received success frame; an invalidate that returns sets the token to None; every other
  RPC method leaves the token as it was, and so does every call that raises, the failed
  signup, signin and invalidate included. close() leaves the token as it was.
\<close>

theorem token_written_by_auth_flow_only:
  "token (state_after (invoke e s op)) =
     (case returned (invoke e s op) of
        Inl x \<Rightarrow> token s
      | Inr v \<Rightarrow> (case token_written op v of None \<Rightarrow> token s | Some t \<Rightarrow> t))
   \<and> token (state_after (close e s)) = token s
   \<and> (client_state s = CONNECTED \<and> ws s = Some w \<and> send_json e = None
        \<and> receive_json e = Inr (JObj [(''id'', JStr x), (''result'', r)]) \<longrightarrow>
      token (state_after (signup e s vars)) = r
      \<and> token (state_after (signin e s vars)) = r
      \<and> token (state_after (invalidate e s)) = JNull)"
proof (intro conjI impI)
  show "token (state_after (invoke e s op)) =
     (case returned (invoke e s op) of
        Inl x \<Rightarrow> token s
      | Inr v \<Rightarrow> (case token_written op v of None \<Rightarrow> token s | Some t \<Rightarrow> t))"
    by (cases op) (auto simp add: method_defs split: prod.splits sum.splits)
next
  show "token (state_after (close e s)) = token s"
    by (simp add: close_def split: option.splits sum.splits)
next
  assume a: "client_state s = CONNECTED \<and> ws s = Some w \<and> send_json e = None
        \<and> receive_json e = Inr (JObj [(''id'', JStr x), (''result'', r)])"
  then have sr: "\<And>q. send_receive e s q =
      (Inr (ResponseSuccess x r), [SendJson w (dict q), ReceiveJson w])"
    using send_receive_frame [of s w e "JObj [(''id'', JStr x), (''result'', r)]"]
    by (simp add: decode_success_frame)
  show "token (state_after (signup e s vars)) = r" by (simp add: signup_def sr)
  show "token (state_after (signin e s vars)) = r" by (simp add: signin_def sr)
  show "token (state_after (invalidate e s)) = JNull" by (simp add: invalidate_def sr)
qed

theorem token_written_by_auth_flow_only_witness:
  "token (state_after (signin (answering (JObj [(''id'', JStr ''1''), (''result'', JStr ''jwt'')]))
      connected_db (JObj [(''user'', JStr ''root''), (''pass'', JStr ''root'')]))) = JStr ''jwt''
   \<and> token (state_after (invoke (answering (error_frame 100 ''bad auth''))
        (connected_db\<lparr>token := JStr ''old''\<rparr>) (Signin JNull))) = JStr ''old''
   \<and> token (state_after (close local_env (connected_db\<lparr>token := JStr ''old''\<rparr>))) = JStr ''old''"
proof -
  have c: "client_state connected_db = CONNECTED \<and> ws connected_db = Some 2
      \<and> send_json (answering (JObj [(''id'', JStr ''1''), (''result'', JStr ''jwt'')])) = None
      \<and> receive_json (answering (JObj [(''id'', JStr ''1''), (''result'', JStr ''jwt'')])) =
          Inr (JObj [(''id'', JStr ''1''), (''result'', JStr ''jwt'')])"
    by (simp add: connected_db_eq answering_simps)
  have r: "returned (invoke (answering (error_frame 100 ''bad auth''))
        (connected_db\<lparr>token := JStr ''old''\<rparr>) (Signin JNull)) =
        Inl (Raised SurrealAuthenticationException ''bad auth'')"
    by (simp add: signin_def error_frame_def connected_db_eq answering_simps
        send_receive_frame [where w = 2] decode_error_frame)
  show ?thesis
    using token_written_by_auth_flow_only
        [of "answering (JObj [(''id'', JStr ''1''), (''result'', JStr ''jwt'')])" connected_db
          "Ping" 2 "''1''" "JStr ''jwt''" "JObj [(''user'', JStr ''root''), (''pass'', JStr ''root'')]"]
      token_written_by_auth_flow_only
        [of "answering (error_frame 100 ''bad auth'')" "connected_db\<lparr>token := JStr ''old''\<rparr>"
          "Signin JNull"]
      token_written_by_auth_flow_only
        [of local_env "connected_db\<lparr>token := JStr ''old''\<rparr>"]
      c r
    by simp
qed

text \<open>
  C9, as stated, fails. The claim: the transport belongs to one session object, and after
  close() the session has dropped its reference to it. close() assigns neither
  \<^verbatim>\<open>self.ws\<close> nor \<^verbatim>\<open>self.session\<close>: the session closed in the scenario still holds the
  websocket and the client session that connect() stored.
\<close>

theorem closed_session_still_holds_transport:
  "ws (state_after (connect local_env fresh_db)) = Some 2
   \<and> returned (close local_env (state_after (connect local_env fresh_db))) = Inr JNull
   \<and> ws (state_after (close local_env (state_after (connect local_env fresh_db)))) = Some 2
   \<and> session (state_after (close local_env (state_after (connect local_env fresh_db)))) = Some 1"
  by (simp add: connect_def close_def local_env_simps fresh_db_def init_def)

text \<open>
  C9, amended. A session object starts without transport. connect() creates a new client
  session, opens the websocket from it at the url of the session object, and stores both
  in the fields of that session object (the client session also when the opening fails,
  the websocket only when it succeeds). The transport is exclusively owned by one session
  object: in every program that creates session objects and calls connect, close and the
  RPC methods on them, two different session objects never hold the same websocket or
  client session; an RPC method makes its transport calls on the websocket of its own
  session object only and leaves both fields as they were. close() closes what the
  session object holds, first the websocket, then, unless that close raised, the client
  session, and it keeps both references: after close(), returned or raised, the fields ws
  and session are what they were before.
\<close>

theorem transport_owned_by_one_session_and_kept_by_close:
  "ws (init u) = None \<and> session (init u) = None
   \<and> transport_calls (connect e s) = [NewClientSession, WsConnect (ClientSession e) (url s)]
   \<and> session (state_after (connect e s)) = Some (ClientSession e)
   \<and> (ws_connect e = Inr w \<longrightarrow> ws (state_after (connect e s)) = Some w)
   \<and> (ws_connect e = Inl x \<longrightarrow> ws (state_after (connect e s)) = ws s)
   \<and> (i < length (objects (run acts)) \<and> j < length (objects (run acts)) \<and> i \<noteq> j \<longrightarrow>
        handles (objects (run acts) ! i) \<inter> handles (objects (run acts) ! j) = {})
   \<and> (\<forall>c \<in> set (transport_calls (invoke e s op)). on_handle c = ws s)
   \<and> ws (state_after (invoke e s op)) = ws s
   \<and> session (state_after (invoke e s op)) = session s
   \<and> transport_calls (close e s) =
        (case ws s of None \<Rightarrow> [] | Some v \<Rightarrow> [WsClose v]) @
        (if ws s \<noteq> None \<and> isl (ws_close e) then []
         else (case session s of None \<Rightarrow> [] | Some c \<Rightarrow> [SessionClose c]))
   \<and> ws (state_after (close e s)) = ws s
   \<and> session (state_after (close e s)) = session s"
proof (intro conjI)
  show "ws (init u) = None" and "session (init u) = None"
    by (simp_all add: init_def)
  show "transport_calls (connect e s) = [NewClientSession, WsConnect (ClientSession e) (url s)]"
    by (simp add: connect_def Let_def split: sum.splits)
  show "session (state_after (connect e s)) = Some (ClientSession e)"
    by (simp add: connect_def Let_def split: sum.splits)
  show "ws_connect e = Inr w \<longrightarrow> ws (state_after (connect e s)) = Some w"
    by (simp add: connect_def Let_def)
  show "ws_connect e = Inl x \<longrightarrow> ws (state_after (connect e s)) = ws s"
    by (simp add: connect_def Let_def)
  show "i < length (objects (run acts)) \<and> j < length (objects (run acts)) \<and> i \<noteq> j \<longrightarrow>
        handles (objects (run acts) ! i) \<inter> handles (objects (run acts) ! j) = {}"
    using owned_apart_run [of acts] unfolding owned_apart_def by blast
  show "\<forall>c \<in> set (transport_calls (invoke e s op)). on_handle c = ws s"
    using invoke_calls [of e s op] send_receive_on_ws [of _ e s] by metis
  show "ws (state_after (invoke e s op)) = ws s"
    and "session (state_after (invoke e s op)) = session s"
    by (simp_all add: invoke_keeps_connection)
  show "transport_calls (close e s) =
        (case ws s of None \<Rightarrow> [] | Some v \<Rightarrow> [WsClose v]) @
        (if ws s \<noteq> None \<and> isl (ws_close e) then []
         else (case session s of None \<Rightarrow> [] | Some c \<Rightarrow> [SessionClose c]))"
    by (simp add: close_def split: option.splits sum.splits)
  show "ws (state_after (close e s)) = ws s" and "session (state_after (close e s)) = session s"
    by (simp_all add: close_keeps_handles)
qed

theorem transport_owned_by_one_session_and_kept_by_close_witness:
  "transport_calls (connect local_env fresh_db) =
     [NewClientSession, WsConnect 1 ''ws://127.0.0.1:8000/rpc'']
   \<and> ws (state_after (connect local_env fresh_db)) = Some 2
   \<and> transport_calls (close local_env connected_db) = [WsClose 2, SessionClose 1]
   \<and> ws (state_after (close local_env connected_db)) = Some 2
   \<and> session (state_after (close local_env connected_db)) = Some 1
   \<and> on_handle (SendJson 2 (dict (Request (uuid4 local_env) ''ping'' None))) = Some 2
   \<and> handles (objects (run [New ''ws://a/rpc'', New ''ws://b/rpc'', Connect 0 local_env,
        Connect 1 local_env, Close 0 local_env]) ! 0) = {1, 0}
   \<and> handles (objects (run [New ''ws://a/rpc'', New ''ws://b/rpc'', Connect 0 local_env,
        Connect 1 local_env, Close 0 local_env]) ! 1) = {3, 2}
   \<and> handles (objects (run [New ''ws://a/rpc'', New ''ws://b/rpc'', Connect 0 local_env,
        Connect 1 local_env, Close 0 local_env]) ! 0)
      \<inter> handles (objects (run [New ''ws://a/rpc'', New ''ws://b/rpc'', Connect 0 local_env,
        Connect 1 local_env, Close 0 local_env]) ! 1) = {}"
proof -
  let ?acts = "[New ''ws://a/rpc'', New ''ws://b/rpc'', Connect 0 local_env,
        Connect 1 local_env, Close 0 local_env]"
  have objs: "objects (run ?acts) =
      [\<lparr>url = ''ws://a/rpc'', client_state = DISCONNECTED, token = JNull,
         session = Some 0, ws = Some 1\<rparr>,
       \<lparr>url = ''ws://b/rpc'', client_state = CONNECTED, token = JNull,
         session = Some 2, ws = Some 3\<rparr>]"
    by (simp add: run_def on_object_def init_def connect_def close_def allocating_def
        local_env_def)
  have len: "0 < length (objects (run ?acts)) \<and> 1 < length (objects (run ?acts))
      \<and> (0::nat) \<noteq> 1"
    using objs by simp
  have c: "ws connected_db = Some 2" "session connected_db = Some 1"
    "client_state connected_db = CONNECTED"
    by (simp_all add: connected_db_eq)
  have u: "url fresh_db = ''ws://127.0.0.1:8000/rpc''"
    by (simp add: fresh_db_def init_def)
  have pc: "SendJson 2 (dict (Request (uuid4 local_env) ''ping'' None))
      \<in> set (transport_calls (invoke local_env connected_db Ping))"
    using c by (simp add: ping_def send_receive_frame [where w = 2] local_env_simps
        split: sum.splits)
  note t1 = transport_owned_by_one_session_and_kept_by_close
    [of "''u''" local_env fresh_db 2 "External ''x''" 0 ?acts 1 Ping]
  note t2 = transport_owned_by_one_session_and_kept_by_close
    [of "''u''" local_env connected_db 2 "External ''x''" 0 ?acts 1 Ping]
  from t1 have a: "transport_calls (connect local_env fresh_db) =
      [NewClientSession, WsConnect (ClientSession local_env) (url fresh_db)]"
    by blast
  have wc: "ws_connect local_env = Inr 2"
    by (simp add: local_env_simps)
  from t1 wc have b: "ws (state_after (connect local_env fresh_db)) = Some 2"
    by blast
  from t2 have d: "transport_calls (close local_env connected_db) =
        (case ws connected_db of None \<Rightarrow> [] | Some v \<Rightarrow> [WsClose v]) @
        (if ws connected_db \<noteq> None \<and> isl (ws_close local_env) then []
         else (case session connected_db of None \<Rightarrow> [] | Some c \<Rightarrow> [SessionClose c]))"
    by blast
  from t2 have k: "ws (state_after (close local_env connected_db)) = ws connected_db
      \<and> session (state_after (close local_env connected_db)) = session connected_db"
    by blast
  from t2 pc have h: "on_handle (SendJson 2 (dict (Request (uuid4 local_env) ''ping'' None))) =
      ws connected_db"
    by blast
  from t1 len have x: "handles (objects (run ?acts) ! 0) \<inter> handles (objects (run ?acts) ! 1) = {}"
    by blast
  have y: "handles (objects (run ?acts) ! 0) = {1, 0}"
    "handles (objects (run ?acts) ! 1) = {3, 2}"
    using objs by (auto simp add: handles_def)
  from a b d k h x y show ?thesis
    by (simp add: c u local_env_simps)
qed

text \<open>
  C10. set(key, value) is an alias of let(key, value). In the same environment (the same
  fresh identifier, transport behaviour and server response) and on the same session the
  two calls are equal in everything: the transport calls made, the value returned or the
  exception raised, and the session afterwards. With two different fresh identifiers the
  value returned or exception raised and the session afterwards are still the same. In
  the Connected state the request sent first is {"id": <uuid>, "method": "let",
  "params": [key, value]}, and on a server error response both raise
  SurrealPermissionException with the server's message.
\<close>

theorem set_is_alias_of_let:
  "set' e s key val = let' e s key val
   \<and> returned (set' (e\<lparr>uuid4 := i\<rparr>) s key val) = returned (let' (e\<lparr>uuid4 := j\<rparr>) s key val)
   \<and> state_after (set' (e\<lparr>uuid4 := i\<rparr>) s key val) =
       state_after (let' (e\<lparr>uuid4 := j\<rparr>) s key val)
   \<and> (client_state s = CONNECTED \<and> ws s = Some w \<longrightarrow>
        take 1 (transport_calls (set' e s key val)) =
          [SendJson w (JObj [(''id'', JStr (uuid4 e)), (''method'', JStr ''let''),
                             (''params'', JList [JStr key, val])])])
   \<and> (client_state s = CONNECTED \<and> ws s = Some w \<and> send_json e = None
        \<and> receive_json e = Inr (JObj [(''error'', JObj [(''code'', JInt c), (''message'', JStr m)])])
      \<longrightarrow> returned (set' e s key val) = Inl (Raised SurrealPermissionException m)
        \<and> returned (let' e s key val) = Inl (Raised SurrealPermissionException m))"
proof (intro conjI impI)
  show "set' e s key val = let' e s key val"
    by (simp add: set'_def let'_def)
next
  have sf: "str_field (e\<lparr>uuid4 := u\<rparr>) a = str_field e a" for u a
    by (simp add: str_field_def split: option.splits json.splits)
  have nf: "int_field (e\<lparr>uuid4 := u\<rparr>) a = int_field e a" for u a
    by (simp add: int_field_def split: option.splits json.splits)
  have af: "any_field (e\<lparr>uuid4 := u\<rparr>) a = any_field e a" for u a
    by (simp add: any_field_def split: option.splits)
  have err: "new_ResponseError (e\<lparr>uuid4 := u\<rparr>) kw = new_ResponseError e kw" for u kw
    by (simp add: new_ResponseError_def sf nf split: option.splits)
  have suc: "new_ResponseSuccess (e\<lparr>uuid4 := u\<rparr>) kw = new_ResponseSuccess e kw" for u kw
    by (simp add: new_ResponseSuccess_def sf af split: option.splits)
  have dec: "decode (e\<lparr>uuid4 := u\<rparr>) f = decode e f" for u f
    by (simp add: decode_def err suc split: json.splits)
  have fst_sr: "fst (send_receive (e\<lparr>uuid4 := i\<rparr>) s q) = fst (send_receive (e\<lparr>uuid4 := j\<rparr>) s q')"
    for q q'
    by (simp add: send_receive_def send_def recv_def dec split: sum.splits option.splits)
  have both: "returned (set' (e\<lparr>uuid4 := i\<rparr>) s key val) = returned (let' (e\<lparr>uuid4 := j\<rparr>) s key val)
      \<and> state_after (set' (e\<lparr>uuid4 := i\<rparr>) s key val) =
        state_after (let' (e\<lparr>uuid4 := j\<rparr>) s key val)"
    using fst_sr [of "Request i ''let'' (Some [JStr key, val])"
        "Request j ''let'' (Some [JStr key, val])"]
    by (auto simp add: set'_def let'_def split: prod.splits sum.splits)
  from both show "returned (set' (e\<lparr>uuid4 := i\<rparr>) s key val) =
      returned (let' (e\<lparr>uuid4 := j\<rparr>) s key val)" by simp
  from both show "state_after (set' (e\<lparr>uuid4 := i\<rparr>) s key val) =
      state_after (let' (e\<lparr>uuid4 := j\<rparr>) s key val)" by simp
next
  assume "client_state s = CONNECTED \<and> ws s = Some w"
  then have "take 1 (snd (send_receive e s (Request (uuid4 e) ''let'' (Some [JStr key, val])))) =
      [SendJson w (dict (Request (uuid4 e) ''let'' (Some [JStr key, val])))]"
    using send_receive_first_call [of s w e] by blast
  then show "take 1 (transport_calls (set' e s key val)) =
          [SendJson w (JObj [(''id'', JStr (uuid4 e)), (''method'', JStr ''let''),
                             (''params'', JList [JStr key, val])])]"
    by (auto simp add: set'_def dict_def Request_def split: prod.splits sum.splits)
next
  assume a: "client_state s = CONNECTED \<and> ws s = Some w \<and> send_json e = None
        \<and> receive_json e = Inr (JObj [(''error'', JObj [(''code'', JInt c), (''message'', JStr m)])])"
  have d: "decode e (JObj [(''error'', JObj [(''code'', JInt c), (''message'', JStr m)])]) =
      Inr (ResponseError c m)"
    by (rule decode_error_frame [where ekw = "[(''code'', JInt c), (''message'', JStr m)]"])
      simp_all
  from a have sr: "\<And>q. send_receive e s q =
      (Inr (ResponseError c m), [SendJson w (dict q), ReceiveJson w])"
    using send_receive_frame
      [of s w e "JObj [(''error'', JObj [(''code'', JInt c), (''message'', JStr m)])]"] d
    by simp
  show "returned (set' e s key val) = Inl (Raised SurrealPermissionException m)"
    by (simp add: set'_def sr)
  show "returned (let' e s key val) = Inl (Raised SurrealPermissionException m)"
    by (simp add: let'_def sr)
qed

theorem set_is_alias_of_let_witness:
  "set' local_env connected_db ''name'' (JStr ''Tobie'') =
     let' local_env connected_db ''name'' (JStr ''Tobie'')
   \<and> take 1 (transport_calls (set' local_env connected_db ''name'' (JStr ''Tobie''))) =
       [SendJson 2 (JObj [(''id'', JStr ''6fa459ea-ee8a-4ca4-894e-db77e160355e''),
                          (''method'', JStr ''let''),
                          (''params'', JList [JStr ''name'', JStr ''Tobie''])])]
   \<and> returned (set' (answering (error_frame 3 ''denied'')) connected_db ''name'' JNull) =
       Inl (Raised SurrealPermissionException ''denied'')"
proof -
  have c: "client_state connected_db = CONNECTED \<and> ws connected_db = Some 2"
    by (simp add: connected_db_eq)
  have f: "send_json (answering (error_frame 3 ''denied'')) = None
      \<and> receive_json (answering (error_frame 3 ''denied'')) =
          Inr (JObj [(''error'', JObj [(''code'', JInt 3), (''message'', JStr ''denied'')])])"
    by (simp add: answering_simps error_frame_def)
  have u: "uuid4 local_env = ''6fa459ea-ee8a-4ca4-894e-db77e160355e''"
    by (simp add: local_env_simps)
  note t1 = set_is_alias_of_let
    [of local_env connected_db "''name''" "JStr ''Tobie''" "''a''" "''b''" 2 0 "''''"]
  note t2 = set_is_alias_of_let
    [of "answering (error_frame 3 ''denied'')" connected_db "''name''" JNull "''a''" "''b''" 2 3
      "''denied''"]
  from t1 have a: "set' local_env connected_db ''name'' (JStr ''Tobie'') =
     let' local_env connected_db ''name'' (JStr ''Tobie'')"
    by blast
  from t1 c have "take 1 (transport_calls (set' local_env connected_db ''name'' (JStr ''Tobie''))) =
       [SendJson 2 (JObj [(''id'', JStr (uuid4 local_env)), (''method'', JStr ''let''),
                          (''params'', JList [JStr ''name'', JStr ''Tobie''])])]"
    by blast
  then have b: "take 1 (transport_calls (set' local_env connected_db ''name'' (JStr ''Tobie''))) =
       [SendJson 2 (JObj [(''id'', JStr ''6fa459ea-ee8a-4ca4-894e-db77e160355e''),
                          (''method'', JStr ''let''),
                          (''params'', JList [JStr ''name'', JStr ''Tobie''])])]"
    by (simp only: u)
  from t2 c f have d: "returned (set' (answering (error_frame 3 ''denied'')) connected_db ''name'' JNull) =
       Inl (Raised SurrealPermissionException ''denied'')"
    by blast
  from a b d show ?thesis by blast
qed

end
